theory Spec2Isabelle
  imports Complex_Main "HOL-Library.AList"
begin

section \<open>Python values, exceptions and dictionaries\<close>

text \<open>
  The training pipeline of \<^verbatim>\<open>src/training/train.py\<close> is embedded function by
  function. An exception of the source is a value \<open>Inl e\<close> of a sum type; a function that
  can raise returns \<open>error + 'a\<close>.
\<close>

datatype error =
    TypeError
  | KeyError
  | ZeroDivisionError
  | ValueError
  | Exception string

text \<open>
  A dictionary key. Package names are strings in every manifest read from JSON; package
  ids are integers. In Python a \<^verbatim>\<open>str\<close> never equals an \<^verbatim>\<open>int\<close>, which the two
  constructors reproduce.
\<close>

datatype pykey = KStr string | KInt int

text \<open>
  A dictionary is an association list in insertion order with one entry per key:
  \<open>map_of\<close> reads it, \<open>AList.update\<close> is the assignment \<^verbatim>\<open>d[k] = v\<close> (in place
  for a key that is present, at the end for a new key).
\<close>

type_synonym ('k, 'v) dict = "('k \<times> 'v) list"

definition getitem :: "('k, 'v) dict \<Rightarrow> 'k \<Rightarrow> error + 'v" where
  "getitem d k = (case map_of d k of None \<Rightarrow> Inl KeyError | Some v \<Rightarrow> Inr v)"

section \<open>Identifier Mapper\<close>

type_synonym 'a manifest = "'a list"

text \<open>
  \<^verbatim>\<open>generate_package_id_dict\<close> (lines 89 to 98): the inner loop over the package names of
  one manifest and the outer loop over the manifests thread the dictionary and the counter.
\<close>

fun package_names_loop :: "'a manifest \<Rightarrow> ('a, int) dict \<times> int \<Rightarrow> ('a, int) dict \<times> int" where
  "package_names_loop [] (package_id_dict, count) = (package_id_dict, count)"
| "package_names_loop (package_name # rest) (package_id_dict, count) =
     (if map_of package_id_dict package_name = None
      then package_names_loop rest (AList.update package_name count package_id_dict, count + 1)
      else package_names_loop rest (package_id_dict, count))"

fun package_manifests_loop ::
  "'a manifest list \<Rightarrow> ('a, int) dict \<times> int \<Rightarrow> ('a, int) dict \<times> int" where
  "package_manifests_loop [] st = st"
| "package_manifests_loop (manifest # rest) st =
     package_manifests_loop rest (package_names_loop manifest st)"

definition generate_package_id_dict :: "'a manifest list \<Rightarrow> ('a, int) dict" where
  "generate_package_id_dict manifest_list = fst (package_manifests_loop manifest_list ([], 0))"

text \<open>
  \<^verbatim>\<open>generate_manifest_id_dict\<close> (lines 112 to 122). The Python set \<^verbatim>\<open>package_set\<close> is
  the list of its elements without repetition (\<open>List.insert\<close> adds an element that is not
  there yet). \<^verbatim>\<open>list(package_set)\<close> enumerates the set in the order of CPython's hash
  table; the model enumerates it in ascending order. The subscript
  \<^verbatim>\<open>package_id_dict[each_package]\<close> raises \<^verbatim>\<open>KeyError\<close> for a missing name.
\<close>

fun package_set_loop :: "('a, int) dict \<Rightarrow> 'a manifest \<Rightarrow> int list \<Rightarrow> error + int list" where
  "package_set_loop package_id_dict [] package_set = Inr package_set"
| "package_set_loop package_id_dict (each_package # rest) package_set =
     (case getitem package_id_dict each_package of
        Inl e \<Rightarrow> Inl e
      | Inr i \<Rightarrow> package_set_loop package_id_dict rest (List.insert i package_set))"

definition list_of_set :: "int list \<Rightarrow> int list" where
  "list_of_set package_set = sort package_set"

fun manifest_ids_loop ::
  "('a, int) dict \<Rightarrow> 'a manifest list \<Rightarrow> int \<Rightarrow> (int, int list) dict \<Rightarrow> error + (int, int list) dict" where
  "manifest_ids_loop package_id_dict [] count manifest_id_dict = Inr manifest_id_dict"
| "manifest_ids_loop package_id_dict (manifest # rest) count manifest_id_dict =
     (case package_set_loop package_id_dict manifest [] of
        Inl e \<Rightarrow> Inl e
      | Inr package_set \<Rightarrow>
          manifest_ids_loop package_id_dict rest (count + 1)
            (AList.update count (list_of_set package_set) manifest_id_dict))"

definition generate_manifest_id_dict ::
  "'a manifest list \<Rightarrow> ('a, int) dict \<Rightarrow> error + (int, int list) dict" where
  "generate_manifest_id_dict manifest_list package_id_dict =
     manifest_ids_loop package_id_dict manifest_list 0 []"

text \<open>
  The order of first occurrence, stated without the loop: \<open>remdups\<close> keeps the last copy
  of every element, so on the reversed list it keeps the first one.
\<close>

definition first_occurrences :: "'a list \<Rightarrow> 'a list" where
  "first_occurrences xs = rev (remdups (rev xs))"

section \<open>Validation and length trimming of raw manifests\<close>

text \<open>
  \<^verbatim>\<open>validate_manifest_data\<close> (lines 135 to 141) walks the list with \<^verbatim>\<open>enumerate\<close> and
  assigns \<^verbatim>\<open>manifest_list[idx]\<close> in place. The registry validator
  \<^verbatim>\<open>bq_validator.validate_pypi\<close> is an external collaborator and a parameter here.
\<close>

function validate_loop ::
  "('a manifest \<Rightarrow> 'a manifest) \<Rightarrow> nat \<Rightarrow> 'a manifest list \<Rightarrow> 'a manifest list" where
  "validate_loop validate_pypi idx manifest_list =
     (if idx < length manifest_list
      then validate_loop validate_pypi (Suc idx)
             (manifest_list[idx := validate_pypi (manifest_list ! idx)])
      else manifest_list)"
  by pat_completeness auto
termination
  by (relation "measure (\<lambda>(v, idx, ms). length ms - idx)") auto

declare validate_loop.simps [simp del]

definition validate_manifest_data ::
  "('a manifest \<Rightarrow> 'a manifest) \<Rightarrow> 'a manifest list \<Rightarrow> 'a manifest list" where
  "validate_manifest_data validate_pypi manifest_list = validate_loop validate_pypi 0 manifest_list"

text \<open>
  The list comprehension of \<^verbatim>\<open>preprocess_raw_data\<close> (lines 150 and 151). The limits are
  Python integers.
\<close>

definition trimmed_manifest_list :: "'a manifest list \<Rightarrow> int \<Rightarrow> int \<Rightarrow> 'a manifest list" where
  "trimmed_manifest_list all_manifest_list lower_limit upper_limit =
     filter (\<lambda>manifest. lower_limit < int (length manifest) \<and> int (length manifest) < upper_limit)
       all_manifest_list"

text \<open>
  \<^verbatim>\<open>preprocess_raw_data\<close> (lines 143 to 156). The raw data is a dictionary;
  \<^verbatim>\<open>raw_data_dict.get('package_list', [])\<close> defaults to the empty list.
\<close>

definition preprocess_raw_data ::
  "('a manifest \<Rightarrow> 'a manifest) \<Rightarrow> (string \<rightharpoonup> 'a manifest list) \<Rightarrow> int \<Rightarrow> int \<Rightarrow>
   error + ('a, int) dict \<times> (int, int list) dict" where
  "preprocess_raw_data validate_pypi raw_data_dict lower_limit upper_limit =
     (let all_manifest_list =
            (case raw_data_dict ''package_list'' of None \<Rightarrow> [] | Some l \<Rightarrow> l);
          all_manifest_list = validate_manifest_data validate_pypi all_manifest_list;
          trimmed = trimmed_manifest_list all_manifest_list lower_limit upper_limit;
          package_id_dict = generate_package_id_dict trimmed
      in case generate_manifest_id_dict trimmed package_id_dict of
           Inl e \<Rightarrow> Inl e
         | Inr manifest_id_dict \<Rightarrow> Inr (package_id_dict, manifest_id_dict))"

section \<open>Interaction Table Builder\<close>

text \<open>
  One row of the interaction table: the dictionary with the keys \<^verbatim>\<open>UserId\<close>,
  \<^verbatim>\<open>ItemId\<close> and \<^verbatim>\<open>Count\<close> that \<^verbatim>\<open>make_user_item_df\<close> appends, and one row of the
  data frame built from the list.
\<close>

record interaction =
  UserId :: int
  ItemId :: int
  Count :: int

type_synonym dataframe = "interaction list"

text \<open>
  \<^verbatim>\<open>make_user_item_df\<close> (lines 72 to 86). The values of \<^verbatim>\<open>manifest_dict\<close> are lists of
  package ids (integers, as \<^verbatim>\<open>generate_manifest_id_dict\<close> stores them), and
  \<^verbatim>\<open>package_dict\<close> is keyed by package name. The subscript \<^verbatim>\<open>package_dict[package]\<close> looks
  the integer \<^verbatim>\<open>package\<close> up among those keys and raises \<^verbatim>\<open>KeyError\<close> when it is not
  one of them. \<^verbatim>\<open>int(k)\<close> is \<^verbatim>\<open>k\<close> for an integer key.
\<close>

fun packages_loop ::
  "(pykey, int) dict \<Rightarrow> int \<Rightarrow> int list \<Rightarrow> interaction list \<Rightarrow> error + interaction list" where
  "packages_loop package_dict user_id [] user_item_list = Inr user_item_list"
| "packages_loop package_dict user_id (package # rest) user_item_list =
     (case getitem package_dict (KInt package) of
        Inl e \<Rightarrow> Inl e
      | Inr item_id \<Rightarrow>
          packages_loop package_dict user_id rest
            (user_item_list @ [\<lparr>UserId = user_id, ItemId = item_id, Count = 1\<rparr>]))"

fun manifest_items_loop ::
  "(pykey, int) dict \<Rightarrow> (int, int list) dict \<Rightarrow> interaction list \<Rightarrow> error + interaction list" where
  "manifest_items_loop package_dict [] user_item_list = Inr user_item_list"
| "manifest_items_loop package_dict ((k, v) # rest) user_item_list =
     (case packages_loop package_dict k v user_item_list of
        Inl e \<Rightarrow> Inl e
      | Inr user_item_list' \<Rightarrow> manifest_items_loop package_dict rest user_item_list')"

definition make_user_item_df ::
  "(int, int list) dict \<Rightarrow> (pykey, int) dict \<Rightarrow> error + interaction list" where
  "make_user_item_df manifest_dict package_dict = manifest_items_loop package_dict manifest_dict []"

section \<open>Python objects that reach the numeric library calls\<close>

text \<open>
  The values handed to \<^verbatim>\<open>fractions.Fraction\<close>, \<^verbatim>\<open>range\<close> and \<^verbatim>\<open>numpy.mean\<close>. A float is
  represented by the rational number it stands for; \<open>PyNaN\<close> is the float \<^verbatim>\<open>nan\<close>;
  \<open>PyMethod\<close> is a bound method object that has not been called.
\<close>

datatype pyval =
    PyInt int
  | PyFloat rat
  | PyNaN
  | PyDict "(string \<times> pyval) list"
  | PyDataFrame dataframe
  | PyMethod

text \<open>
  \<^verbatim>\<open>Fraction(numerator, denominator)\<close> accepts two rational numbers and raises
  \<^verbatim>\<open>TypeError\<close> (``both arguments should be Rational instances'') for anything else.
\<close>

fun py_Fraction :: "pyval \<Rightarrow> pyval \<Rightarrow> error + rat" where
  "py_Fraction (PyInt numerator) (PyInt denominator) =
     (if denominator = 0 then Inl ZeroDivisionError else Inr (Fract numerator denominator))"
| "py_Fraction _ _ = Inl TypeError"

text \<open>Python's \<^verbatim>\<open>round\<close>: to the nearest integer, a tie to the even one.\<close>

definition round_half_even :: "rat \<Rightarrow> int" where
  "round_half_even q =
     (let f = \<lfloor>q\<rfloor>; d = q - of_int f
      in if d < 1 / 2 then f else if 1 / 2 < d then f + 1 else if even f then f else f + 1)"

definition round2 :: "rat \<Rightarrow> rat" where
  "round2 q = of_int (round_half_even (q * 100)) / 100"

text \<open>The double nearest to the literal \<^verbatim>\<open>0.80\<close>, which a \<^verbatim>\<open>Fraction\<close> is compared with exactly.\<close>

definition float_0_80 :: rat where
  "float_0_80 = 3602879701896397 / 4503599627370496"

text \<open>\<^verbatim>\<open>range(n)\<close> needs an integer: any other object raises \<^verbatim>\<open>TypeError\<close>.\<close>

fun py_range :: "pyval \<Rightarrow> error + int list" where
  "py_range (PyInt n) = Inr (map int [0..<nat n])"
| "py_range _ = Inl TypeError"

text \<open>True division \<^verbatim>\<open>a / b\<close> of two integers.\<close>

definition true_div :: "int \<Rightarrow> int \<Rightarrow> error + rat" where
  "true_div a b = (if b = 0 then Inl ZeroDivisionError else Inr (of_int a / of_int b))"

text \<open>
  \<^verbatim>\<open>numpy.mean\<close> of a Python list: \<^verbatim>\<open>nan\<close> for the empty list (with a warning, no
  exception), the arithmetic mean of a list of numbers, and \<^verbatim>\<open>TypeError\<close> for a list that
  holds an object that cannot be added or divided, such as a dictionary.
\<close>

fun is_number :: "pyval \<Rightarrow> bool" where
  "is_number (PyInt i) = True"
| "is_number (PyFloat q) = True"
| "is_number PyNaN = True"
| "is_number _ = False"

fun number_of :: "pyval \<Rightarrow> rat" where
  "number_of (PyInt i) = of_int i"
| "number_of (PyFloat q) = q"
| "number_of _ = 0"

definition np_mean :: "pyval list \<Rightarrow> error + pyval" where
  "np_mean a =
     (if a = [] then Inr PyNaN
      else if list_ex (\<lambda>x. \<not> is_number x) a then Inl TypeError
      else if PyNaN \<in> set a then Inr PyNaN
      else Inr (PyFloat (sum_list (map number_of a) / of_nat (length a))))"

section \<open>Coverage-Preserving Splitter\<close>

text \<open>
  The data frame operations the splitter uses. \<^verbatim>\<open>drop_duplicates(subset)\<close> keeps the first
  row of every key; \<^verbatim>\<open>drop_duplicates()\<close> compares whole rows;
  \<^verbatim>\<open>drop_duplicates(keep=False)\<close> drops every row that occurs more than once;
  \<^verbatim>\<open>pd.concat\<close> appends.
\<close>

fun keep_first :: "('a \<Rightarrow> 'k) \<Rightarrow> 'k list \<Rightarrow> 'a list \<Rightarrow> 'a list" where
  "keep_first key seen [] = []"
| "keep_first key seen (row # rest) =
     (if key row \<in> set seen then keep_first key seen rest
      else row # keep_first key (key row # seen) rest)"

definition drop_duplicates_on :: "(interaction \<Rightarrow> 'k) \<Rightarrow> dataframe \<Rightarrow> dataframe" where
  "drop_duplicates_on key df = keep_first key [] df"

definition drop_duplicates :: "dataframe \<Rightarrow> dataframe" where
  "drop_duplicates df = keep_first (\<lambda>row. row) [] df"

definition drop_duplicates_keep_False :: "dataframe \<Rightarrow> dataframe" where
  "drop_duplicates_keep_False df = filter (\<lambda>row. count_list df row = 1) df"

text \<open>The slice \<^verbatim>\<open>df[:n]\<close>: a negative bound counts from the end.\<close>

definition slice_to :: "int \<Rightarrow> 'a list \<Rightarrow> 'a list" where
  "slice_to n xs = (if 0 \<le> n then take (nat n) xs else take (length xs - nat (- n)) xs)"

text \<open>
  \<^verbatim>\<open>extra_df\<close> (lines 160 to 167). \<^verbatim>\<open>sample(frac=1)\<close> returns the rows in a random
  order; the permutation drawn is the parameter \<open>sample\<close>. The float arithmetic of
  \<^verbatim>\<open>float("%.2f" % (0.80 - frac))\<close> and of \<^verbatim>\<open>round(remain_frac * len_df)\<close> is carried out
  on the rationals the floats stand for.
\<close>

definition extra_df :: "(dataframe \<Rightarrow> dataframe) \<Rightarrow> rat \<Rightarrow> dataframe \<Rightarrow> dataframe \<Rightarrow> dataframe" where
  "extra_df sample frac' data_df train_df =
     (let remain_frac = round2 (float_0_80 - frac');
          len_df = int (length data_df);
          no_rows = round_half_even (remain_frac * of_int len_df);
          df_remain = drop_duplicates_keep_False (data_df @ train_df);
          df_remain_rand = sample df_remain
      in slice_to no_rows df_remain_rand)"

text \<open>
  \<^verbatim>\<open>train_test_split\<close> (lines 170 to 185). The two shuffles of the table are the
  parameters \<open>sample1\<close> and \<open>sample2\<close>, the one inside \<^verbatim>\<open>extra_df\<close> is \<open>sample3\<close>.
  Line 177 calls \<^verbatim>\<open>Fraction(data_df, train_df)\<close> on the two data frames themselves.
\<close>

definition train_test_split ::
  "(dataframe \<Rightarrow> dataframe) \<Rightarrow> (dataframe \<Rightarrow> dataframe) \<Rightarrow> (dataframe \<Rightarrow> dataframe) \<Rightarrow>
   dataframe \<Rightarrow> error + dataframe \<times> dataframe" where
  "train_test_split sample1 sample2 sample3 data_df0 =
     (let data_df1 = sample1 data_df0;
          df_user = drop_duplicates_on UserId data_df1;
          data_df = sample2 data_df1;
          df_item = drop_duplicates_on ItemId data_df;
          train_df = drop_duplicates (df_user @ df_item)
      in case py_Fraction (PyDataFrame data_df) (PyDataFrame train_df) of
           Inl e \<Rightarrow> Inl e
         | Inr q \<Rightarrow>
             (let fraction = round2 q;
                  train_df' =
                    (if fraction < float_0_80
                     then train_df @ extra_df sample3 fraction data_df train_df
                     else train_df);
                  test_df = drop_duplicates_keep_False (data_df @ train_df')
              in Inr (train_df', test_df)))"

text \<open>
  The train set as it stands after line 176, before the fraction is computed.
\<close>

definition coverage_train :: "(dataframe \<Rightarrow> dataframe) \<Rightarrow> (dataframe \<Rightarrow> dataframe) \<Rightarrow> dataframe \<Rightarrow> dataframe" where
  "coverage_train sample1 sample2 data_df0 =
     (let data_df1 = sample1 data_df0;
          df_user = drop_duplicates_on UserId data_df1;
          data_df = sample2 data_df1;
          df_item = drop_duplicates_on ItemId data_df
      in drop_duplicates (df_user @ df_item))"

section \<open>Evaluator\<close>

text \<open>
  The fitted model is opaque: \<open>topN user n\<close> stands for
  \<^verbatim>\<open>recommender.topN(user=user, n=n, exclude_seen=True)\<close>, the array of recommended item
  ids. \<open>truth\<close> is the array \<^verbatim>\<open>x\<close> of the item ids of the user's rows in the test
  table, and \<open>intersect1d\<close> is \<^verbatim>\<open>numpy.intersect1d\<close>: the sorted common values, each once.
\<close>

type_synonym recommender = "int \<Rightarrow> int \<Rightarrow> int list"

definition truth :: "dataframe \<Rightarrow> int \<Rightarrow> int list" where
  "truth test_df i = map ItemId (filter (\<lambda>row. UserId row = i) test_df)"

definition intersect1d :: "int list \<Rightarrow> int list \<Rightarrow> int list" where
  "intersect1d x y = sort (remdups (filter (\<lambda>v. v \<in> set y) x))"

text \<open>
  The loop of \<^verbatim>\<open>recall_at_m\<close> (lines 208 to 216). Only \<^verbatim>\<open>ZeroDivisionError\<close> is caught;
  the sample appended is a dictionary.
\<close>

fun recall_loop ::
  "int \<Rightarrow> dataframe \<Rightarrow> recommender \<Rightarrow> int list \<Rightarrow> pyval list \<Rightarrow> error + pyval list" where
  "recall_loop m test_df topN [] recall = Inr recall"
| "recall_loop m test_df topN (i # rest) recall =
     (let x = truth test_df i;
          rec_l = int (length x);
          recommendations = topN i m;
          intersection_length = int (length (intersect1d x recommendations))
      in case true_div intersection_length rec_l of
           Inl e \<Rightarrow>
             (if e = ZeroDivisionError then recall_loop m test_df topN rest recall else Inl e)
         | Inr q \<Rightarrow>
             recall_loop m test_df topN rest
               (recall @ [PyDict [(''recall'', PyFloat q), (''length'', PyInt rec_l),
                                  (''user'', PyInt i)]]))"

definition recall_at_m :: "int \<Rightarrow> dataframe \<Rightarrow> recommender \<Rightarrow> pyval \<Rightarrow> error + pyval" where
  "recall_at_m m test_df topN user_count =
     (case py_range user_count of
        Inl e \<Rightarrow> Inl e
      | Inr users \<Rightarrow>
          (case recall_loop m test_df topN users [] of
             Inl e \<Rightarrow> Inl e
           | Inr recall \<Rightarrow> np_mean recall))"

text \<open>The loop of \<^verbatim>\<open>precision_at_m\<close> (lines 223 to 232).\<close>

fun precision_loop ::
  "int \<Rightarrow> dataframe \<Rightarrow> recommender \<Rightarrow> int list \<Rightarrow> pyval list \<Rightarrow> error + pyval list" where
  "precision_loop m test_df topN [] precision = Inr precision"
| "precision_loop m test_df topN (i # rest) precision =
     (let x = truth test_df i;
          recommendations = topN i m;
          r_size = int (length recommendations);
          intersection_length = int (length (intersect1d x recommendations))
      in case true_div intersection_length r_size of
           Inl e \<Rightarrow>
             (if e = ZeroDivisionError then precision_loop m test_df topN rest precision
              else Inl e)
         | Inr q \<Rightarrow>
             precision_loop m test_df topN rest
               (precision @ [PyDict [(''precision'', PyFloat q), (''length'', PyInt r_size),
                                     (''user'', PyInt i)]]))"

definition precision_at_m :: "int \<Rightarrow> dataframe \<Rightarrow> recommender \<Rightarrow> pyval \<Rightarrow> error + pyval" where
  "precision_at_m m test_df topN user_count =
     (case py_range user_count of
        Inl e \<Rightarrow> Inl e
      | Inr users \<Rightarrow>
          (case precision_loop m test_df topN users [] of
             Inl e \<Rightarrow> Inl e
           | Inr precision \<Rightarrow> np_mean precision))"

text \<open>
  \<^verbatim>\<open>precision_recall_at_m\<close> (lines 236 to 246). Line 238 reads the attribute
  \<^verbatim>\<open>user_item_df.groupby("UserId").size\<close> without calling it, so \<^verbatim>\<open>user_count\<close> is a bound
  method. Only \<^verbatim>\<open>ValueError\<close> is caught, and then the function returns \<^verbatim>\<open>None\<close>.
  A \<open>dataframe\<close> always has the three columns; for a frame without the column
  \<^verbatim>\<open>UserId\<close>, which the type does not contain, \<^verbatim>\<open>groupby\<close> itself raises \<^verbatim>\<open>KeyError\<close>.
\<close>

definition precision_recall_at_m ::
  "int \<Rightarrow> dataframe \<Rightarrow> recommender \<Rightarrow> dataframe \<Rightarrow> error + (pyval \<times> pyval) option" where
  "precision_recall_at_m m test_df topN user_item_df =
     (let user_count = PyMethod
      in case precision_at_m m test_df topN user_count of
           Inl e \<Rightarrow> (if e = ValueError then Inr None else Inl e)
         | Inr precision \<Rightarrow>
             (case recall_at_m m test_df topN user_count of
                Inl e \<Rightarrow> (if e = ValueError then Inr None else Inl e)
              | Inr recall \<Rightarrow> Inr (Some (precision, recall))))"

text \<open>The user and the metric stored in a sample dictionary.\<close>

fun sample_user :: "pyval \<Rightarrow> int option" where
  "sample_user (PyDict d) = (case map_of d ''user'' of Some (PyInt i) \<Rightarrow> Some i | _ \<Rightarrow> None)"
| "sample_user _ = None"

section \<open>Artifact Publisher\<close>

text \<open>
  The storage client is an external collaborator. Its state is what the bucket holds;
  \<open>accepts\<close> says for which keys the backend stores a write, which is the status
  \<^verbatim>\<open>write_json_file\<close> reports; \<open>write_log\<close> records the key of every write attempted.
  The storage paths \<^verbatim>\<open>PACKAGE_TO_ID_MAP\<close>, \<^verbatim>\<open>MANIFEST_TO_ID_MAP\<close> and
  \<^verbatim>\<open>HYPERPARAMETERS_PATH\<close> come from a configuration module and are parameters.
\<close>

record 'c s3_client =
  objects :: "string \<rightharpoonup> 'c"
  accepts :: "string \<Rightarrow> bool"
  write_log :: "string list"

definition object_exists :: "'c s3_client \<Rightarrow> string \<Rightarrow> bool" where
  "object_exists s3 path = (objects s3 path \<noteq> None)"

definition write_json_file :: "'c s3_client \<Rightarrow> string \<Rightarrow> 'c \<Rightarrow> bool \<times> 'c s3_client" where
  "write_json_file s3 path contents =
     (if accepts s3 path
      then (True, s3\<lparr>objects := (objects s3)(path \<mapsto> contents), write_log := write_log s3 @ [path]\<rparr>)
      else (False, s3\<lparr>write_log := write_log s3 @ [path]\<rparr>))"

text \<open>
  \<^verbatim>\<open>save_dictionaries\<close> (lines 258 to 270). The condition of line 267 is
  \<^verbatim>\<open>not pkg_status or mnf_status\<close>, in which \<^verbatim>\<open>not\<close> binds tighter than \<^verbatim>\<open>or\<close>.
\<close>

definition save_dictionaries ::
  "string \<Rightarrow> string \<Rightarrow> 'c s3_client \<Rightarrow> 'c \<Rightarrow> 'c \<Rightarrow> (error + unit) \<times> 'c s3_client" where
  "save_dictionaries PACKAGE_TO_ID_MAP MANIFEST_TO_ID_MAP s3 package_id_dict manifest_id_dict =
     (if \<not> (object_exists s3 PACKAGE_TO_ID_MAP \<and> object_exists s3 MANIFEST_TO_ID_MAP)
      then (let (pkg_status, s3a) = write_json_file s3 PACKAGE_TO_ID_MAP package_id_dict;
                (mnf_status, s3b) = write_json_file s3a MANIFEST_TO_ID_MAP manifest_id_dict
            in if (\<not> pkg_status) \<or> mnf_status
               then (Inl (Exception ''Unable to store data files for scoring''), s3b)
               else (Inr (), s3b))
      else (Inr (), s3))"

text \<open>\<^verbatim>\<open>save_hyperparams\<close> (lines 273 to 278).\<close>

definition save_hyperparams ::
  "string \<Rightarrow> 'c s3_client \<Rightarrow> 'c \<Rightarrow> (error + unit) \<times> 'c s3_client" where
  "save_hyperparams HYPERPARAMETERS_PATH s3 content_json =
     (let (status, s3a) = write_json_file s3 HYPERPARAMETERS_PATH content_json
      in if \<not> status
         then (Inl (Exception ''Unable to store hyperparameters file''), s3a)
         else (Inr (), s3a))"

section \<open>Auxiliary notions of the proofs\<close>

text \<open>The dictionary that numbers a list of keys from 0 in list order.\<close>

definition numbered :: "'a list \<Rightarrow> ('a, int) dict" where
  "numbered ks = zip ks (map int [0..<length ks])"

text \<open>
  The sample dictionaries that the loops of \<^verbatim>\<open>recall_at_m\<close> and \<^verbatim>\<open>precision_at_m\<close> append
  for a user whose denominator is not zero.
\<close>

definition recall_sample :: "int \<Rightarrow> dataframe \<Rightarrow> recommender \<Rightarrow> int \<Rightarrow> pyval" where
  "recall_sample m test_df topN i =
     PyDict [(''recall'',
              PyFloat (of_int (int (length (intersect1d (truth test_df i) (topN i m)))) /
                       of_int (int (length (truth test_df i))))),
             (''length'', PyInt (int (length (truth test_df i)))),
             (''user'', PyInt i)]"

definition precision_sample :: "int \<Rightarrow> dataframe \<Rightarrow> recommender \<Rightarrow> int \<Rightarrow> pyval" where
  "precision_sample m test_df topN i =
     PyDict [(''precision'',
              PyFloat (of_int (int (length (intersect1d (truth test_df i) (topN i m)))) /
                       of_int (int (length (topN i m))))),
             (''length'', PyInt (int (length (topN i m)))),
             (''user'', PyInt i)]"


text \<open>Example inputs: a bucket with no object, a bucket that holds only the package
  mapping, the same bucket on a backend that refuses every write, a test table with one
  row and a model that recommends to user 0 only.\<close>

definition fresh_bucket :: "string s3_client" where
  "fresh_bucket = \<lparr>objects = Map.empty, accepts = (\<lambda>path. True), write_log = []\<rparr>"

definition half_written_bucket :: "string s3_client" where
  "half_written_bucket =
     \<lparr>objects = [''pkg.json'' \<mapsto> ''old packages''], accepts = (\<lambda>path. True), write_log = []\<rparr>"

definition refusing_bucket :: "string s3_client" where
  "refusing_bucket =
     \<lparr>objects = [''pkg.json'' \<mapsto> ''old packages''], accepts = (\<lambda>path. False), write_log = []\<rparr>"

definition one_row_test :: dataframe where
  "one_row_test = [\<lparr>UserId = 0, ItemId = 7, Count = 1\<rparr>]"

definition first_user_only :: recommender where
  "first_user_only user n = (if user = 0 then [7] else [])"

section \<open>Verification: length filter\<close>

lemma validate_loop_eq:
  "idx \<le> length ms \<Longrightarrow>
   validate_loop v idx ms = take idx ms @ map v (drop idx ms)"
proof (induction v idx ms rule: validate_loop.induct)
  case (1 v idx ms)
  show ?case
  proof (cases "idx < length ms")
    case True
    have "validate_loop v idx ms = validate_loop v (Suc idx) (ms[idx := v (ms ! idx)])"
      using True by (subst validate_loop.simps) simp
    also have "\<dots> = take (Suc idx) (ms[idx := v (ms ! idx)]) @
        map v (drop (Suc idx) (ms[idx := v (ms ! idx)]))"
      using True by (intro "1.IH") auto
    also have "\<dots> = take idx ms @ map v (drop idx ms)"
      using True by (simp add: take_Suc_conv_app_nth Cons_nth_drop_Suc [symmetric])
    finally show ?thesis .
  next
    case False
    with "1.prems" show ?thesis by (subst validate_loop.simps) simp
  qed
qed

lemma validate_manifest_data_map: "validate_manifest_data v ms = map v ms"
  by (simp add: validate_manifest_data_def validate_loop_eq)

text \<open>
  C7. A manifest survives the length filter of \<^verbatim>\<open>preprocess_raw_data\<close> exactly when its
  number of packages lies strictly between the two limits: a manifest whose length equals
  \<open>lower_limit\<close> or \<open>upper_limit\<close> is dropped, and one whose length is between
  \<open>lower_limit + 1\<close> and \<open>upper_limit - 1\<close> is kept.
\<close>

theorem length_filter_strict:
  "(m \<in> set (trimmed_manifest_list ms lower_limit upper_limit) \<longleftrightarrow>
      m \<in> set ms \<and> lower_limit < int (length m) \<and> int (length m) < upper_limit)
   \<and> (int (length m) = lower_limit \<longrightarrow> m \<notin> set (trimmed_manifest_list ms lower_limit upper_limit))
   \<and> (int (length m) = upper_limit \<longrightarrow> m \<notin> set (trimmed_manifest_list ms lower_limit upper_limit))
   \<and> (m \<in> set ms \<and> lower_limit + 1 \<le> int (length m) \<and> int (length m) \<le> upper_limit - 1 \<longrightarrow>
        m \<in> set (trimmed_manifest_list ms lower_limit upper_limit))
   \<and> trimmed_manifest_list [m] lower_limit upper_limit =
        (if lower_limit < int (length m) \<and> int (length m) < upper_limit then [m] else [])"
  by (auto simp: trimmed_manifest_list_def)

theorem length_filter_strict_witness:
  "[''a'', ''b''] \<in> set (trimmed_manifest_list [[''a''], [''a'', ''b''], [''a'', ''b'', ''c'']] 1 3)
   \<and> [''a''] \<notin> set (trimmed_manifest_list [[''a''], [''a'', ''b''], [''a'', ''b'', ''c'']] 1 3)
   \<and> [''a'', ''b'', ''c''] \<notin>
        set (trimmed_manifest_list [[''a''], [''a'', ''b''], [''a'', ''b'', ''c'']] 1 3)"
  using length_filter_strict [of "[''a'', ''b'']" "[[''a''], [''a'', ''b''], [''a'', ''b'', ''c'']]" 1 3]
        length_filter_strict [of "[''a'']" "[[''a''], [''a'', ''b''], [''a'', ''b'', ''c'']]" 1 3]
        length_filter_strict [of "[''a'', ''b'', ''c'']"
          "[[''a''], [''a'', ''b''], [''a'', ''b'', ''c'']]" 1 3]
  by simp

section \<open>Verification: validation keeps the list's shape\<close>

text \<open>
  C10. \<^verbatim>\<open>validate_manifest_data\<close> replaces every manifest, at its own index, by what the
  validator returns for it, and the list keeps its length: a manifest that the validator
  empties stays in the list as an empty entry. Such an entry goes only in the length trim
  that follows (whenever the lower limit is not negative).
\<close>

theorem validate_manifest_data_frame:
  "validate_manifest_data validate_pypi ms = map validate_pypi ms
   \<and> length (validate_manifest_data validate_pypi ms) = length ms
   \<and> (\<forall>idx < length ms. validate_manifest_data validate_pypi ms ! idx = validate_pypi (ms ! idx))
   \<and> length (filter (\<lambda>m. m = []) (validate_manifest_data validate_pypi ms)) =
       length (filter (\<lambda>m. validate_pypi m = []) ms)
   \<and> (0 \<le> lower_limit \<longrightarrow>
        [] \<notin> set (trimmed_manifest_list (validate_manifest_data validate_pypi ms)
                      lower_limit upper_limit))"
proof -
  have eq: "validate_manifest_data validate_pypi ms = map validate_pypi ms"
    by (rule validate_manifest_data_map)
  have len: "length (validate_manifest_data validate_pypi ms) = length ms"
    by (simp only: eq length_map)
  have at: "\<forall>idx < length ms.
      validate_manifest_data validate_pypi ms ! idx = validate_pypi (ms ! idx)"
    by (simp only: eq) simp
  have "filter (\<lambda>m. m = []) (map validate_pypi ms) =
      map validate_pypi (filter (\<lambda>m. validate_pypi m = []) ms)"
    by (induction ms) auto
  then have empties: "length (filter (\<lambda>m. m = []) (validate_manifest_data validate_pypi ms)) =
      length (filter (\<lambda>m. validate_pypi m = []) ms)"
    by (simp only: eq length_map)
  have trim: "0 \<le> lower_limit \<longrightarrow>
      [] \<notin> set (trimmed_manifest_list (validate_manifest_data validate_pypi ms)
                    lower_limit upper_limit)"
    by (simp add: trimmed_manifest_list_def)
  from eq len at empties trim show ?thesis
    by (intro conjI)
qed

theorem validate_manifest_data_frame_witness:
  "(0::int) \<le> 0
   \<and> validate_manifest_data (filter (\<lambda>p. p \<noteq> ''x'')) [[''x''], [''a'', ''x''], []] =
       [[], [''a''], []]
   \<and> length (validate_manifest_data (filter (\<lambda>p. p \<noteq> ''x'')) [[''x''], [''a'', ''x''], []]) = 3
   \<and> [] \<notin> set (trimmed_manifest_list
        (validate_manifest_data (filter (\<lambda>p. p \<noteq> ''x'')) [[''x''], [''a'', ''x''], []]) 0 2)"
proof -
  note t = validate_manifest_data_frame
          [of "filter (\<lambda>p. p \<noteq> ''x'')" "[[''x''], [''a'', ''x''], []]" 0 2]
  have h: "(0::int) \<le> 0" by simp
  note c1 = t [THEN conjunct1]
  note c2 = t [THEN conjunct2, THEN conjunct1]
  note c5 = t [THEN conjunct2, THEN conjunct2, THEN conjunct2, THEN conjunct2, THEN mp, OF h]
  have c1': "validate_manifest_data (filter (\<lambda>p. p \<noteq> ''x'')) [[''x''], [''a'', ''x''], []] =
       [[], [''a''], []]"
    by (simp only: c1) simp
  have c2': "length (validate_manifest_data (filter (\<lambda>p. p \<noteq> ''x''))
       [[''x''], [''a'', ''x''], []]) = 3"
    by (simp only: c2) simp
  from h c1' c2' c5 show ?thesis by (intro conjI)
qed

section \<open>Verification: Identifier Mapper\<close>

lemma update_fresh: "map_of d k = None \<Longrightarrow> AList.update k v d = d @ [(k, v)]"
  by (induction d) (auto split: if_splits)

lemma first_occurrences_snoc:
  "first_occurrences (xs @ [x]) =
     (if x \<in> set xs then first_occurrences xs else first_occurrences xs @ [x])"
  by (simp add: first_occurrences_def)

lemma set_first_occurrences: "set (first_occurrences xs) = set xs"
  by (simp add: first_occurrences_def)

lemma distinct_first_occurrences: "distinct (first_occurrences xs)"
  by (simp add: first_occurrences_def)

lemma first_occurrences_distinct: "distinct xs \<Longrightarrow> first_occurrences xs = xs"
  by (simp add: first_occurrences_def distinct_remdups_id)

lemma first_occurrences_seen:
  "x \<in> set xs \<Longrightarrow> first_occurrences (xs @ x # ys) = first_occurrences (xs @ ys)"
proof (induction ys rule: rev_induct)
  case Nil
  then show ?case
    using first_occurrences_snoc [of xs x] by simp
next
  case (snoc y ys)
  have "first_occurrences (xs @ x # ys @ [y]) = first_occurrences ((xs @ x # ys) @ [y])"
    by simp
  also have "\<dots> = (if y \<in> set (xs @ x # ys) then first_occurrences (xs @ x # ys)
      else first_occurrences (xs @ x # ys) @ [y])"
    by (rule first_occurrences_snoc)
  also have "\<dots> = (if y \<in> set (xs @ ys) then first_occurrences (xs @ ys)
      else first_occurrences (xs @ ys) @ [y])"
    using snoc by auto
  also have "\<dots> = first_occurrences ((xs @ ys) @ [y])"
    by (rule first_occurrences_snoc [symmetric])
  finally show ?case by simp
qed

lemma first_occurrences_absorb:
  "first_occurrences (first_occurrences xs @ ys) = first_occurrences (xs @ ys)"
proof (induction ys rule: rev_induct)
  case Nil
  then show ?case
    by (simp add: first_occurrences_distinct distinct_first_occurrences)
next
  case (snoc y ys)
  have "first_occurrences (first_occurrences xs @ ys @ [y]) =
      first_occurrences ((first_occurrences xs @ ys) @ [y])"
    by simp
  also have "\<dots> = (if y \<in> set (first_occurrences xs @ ys)
      then first_occurrences (first_occurrences xs @ ys)
      else first_occurrences (first_occurrences xs @ ys) @ [y])"
    by (rule first_occurrences_snoc)
  also have "\<dots> = (if y \<in> set (xs @ ys) then first_occurrences (xs @ ys)
      else first_occurrences (xs @ ys) @ [y])"
    using snoc by (simp add: set_first_occurrences)
  also have "\<dots> = first_occurrences ((xs @ ys) @ [y])"
    by (rule first_occurrences_snoc [symmetric])
  finally show ?case by simp
qed

lemma numbered_snoc: "numbered (ks @ [k]) = numbered ks @ [(k, int (length ks))]"
  by (simp add: numbered_def)

lemma map_of_numbered_None: "map_of (numbered ks) k = None \<longleftrightarrow> k \<notin> set ks"
  by (simp add: numbered_def map_of_zip_is_None)

lemma package_names_loop_numbered:
  "distinct ks \<Longrightarrow>
   package_names_loop m (numbered ks, int (length ks)) =
     (numbered (first_occurrences (ks @ m)), int (length (first_occurrences (ks @ m))))"
proof (induction m arbitrary: ks)
  case Nil
  then show ?case by (simp add: first_occurrences_distinct)
next
  case (Cons x m)
  show ?case
  proof (cases "x \<in> set ks")
    case True
    then have "package_names_loop (x # m) (numbered ks, int (length ks)) =
        package_names_loop m (numbered ks, int (length ks))"
      by (simp add: map_of_numbered_None)
    then show ?thesis
      using Cons.IH [OF Cons.prems] True by (simp add: first_occurrences_seen)
  next
    case False
    then have "package_names_loop (x # m) (numbered ks, int (length ks)) =
        package_names_loop m (numbered (ks @ [x]), int (length (ks @ [x])))"
      by (simp add: map_of_numbered_None update_fresh numbered_snoc add.commute)
    moreover have "distinct (ks @ [x])"
      using Cons.prems False by simp
    ultimately show ?thesis
      using Cons.IH [of "ks @ [x]"] by simp
  qed
qed

lemma package_manifests_loop_numbered:
  "distinct ks \<Longrightarrow>
   package_manifests_loop ms (numbered ks, int (length ks)) =
     (numbered (first_occurrences (ks @ concat ms)),
      int (length (first_occurrences (ks @ concat ms))))"
proof (induction ms arbitrary: ks)
  case Nil
  then show ?case by (simp add: first_occurrences_distinct)
next
  case (Cons m ms)
  have "package_manifests_loop (m # ms) (numbered ks, int (length ks)) =
      package_manifests_loop ms (numbered (first_occurrences (ks @ m)),
        int (length (first_occurrences (ks @ m))))"
    by (simp add: package_names_loop_numbered [OF Cons.prems])
  also have "\<dots> = (numbered (first_occurrences (first_occurrences (ks @ m) @ concat ms)),
      int (length (first_occurrences (first_occurrences (ks @ m) @ concat ms))))"
    by (rule Cons.IH) (rule distinct_first_occurrences)
  finally show ?case
    by (simp add: first_occurrences_absorb)
qed

lemma generate_package_id_dict_numbered:
  "generate_package_id_dict ms = numbered (first_occurrences (concat ms))"
  using package_manifests_loop_numbered [of "[]" ms]
  by (simp add: generate_package_id_dict_def numbered_def)

lemma package_set_loop_ok:
  "set m \<subseteq> fst ` set pd \<Longrightarrow>
   \<exists>s'. package_set_loop pd m s = Inr s'
        \<and> set s' = set s \<union> (\<lambda>p. the (map_of pd p)) ` set m
        \<and> (distinct s \<longrightarrow> distinct s')"
proof (induction m arbitrary: s)
  case Nil
  then show ?case by simp
next
  case (Cons x m)
  from Cons.prems have "x \<in> fst ` set pd" by simp
  then obtain i where i: "map_of pd x = Some i"
    by (metis map_of_eq_None_iff not_Some_eq)
  from Cons.prems have "set m \<subseteq> fst ` set pd" by simp
  from Cons.IH [OF this, of "List.insert i s"] obtain s' where
    s': "package_set_loop pd m (List.insert i s) = Inr s'"
        "set s' = set (List.insert i s) \<union> (\<lambda>p. the (map_of pd p)) ` set m"
        "distinct (List.insert i s) \<longrightarrow> distinct s'"
    by blast
  have "package_set_loop pd (x # m) s = Inr s'"
    using i s'(1) by (simp add: getitem_def)
  moreover have "set s' = set s \<union> (\<lambda>p. the (map_of pd p)) ` set (x # m)"
    using s'(2) i by auto
  moreover have "distinct s \<longrightarrow> distinct s'"
    using s'(3) by simp
  ultimately show ?case by blast
qed

lemma set_list_of_set: "set (list_of_set s) = set s"
  by (simp add: list_of_set_def)

lemma distinct_list_of_set: "distinct (list_of_set s) = distinct s"
  by (simp add: list_of_set_def)

lemma manifest_ids_loop_ok:
  "\<forall>m \<in> set ms. set m \<subseteq> fst ` set pd \<Longrightarrow> map fst d = map int [0..<n] \<Longrightarrow>
   \<exists>d'. manifest_ids_loop pd ms (int n) d = Inr d'
        \<and> map fst d' = map int [0..<n + length ms]
        \<and> map (\<lambda>e. set (snd e)) d' =
            map (\<lambda>e. set (snd e)) d @ map (\<lambda>m. (\<lambda>p. the (map_of pd p)) ` set m) ms
        \<and> (list_all (\<lambda>e. distinct (snd e)) d \<longrightarrow> list_all (\<lambda>e. distinct (snd e)) d')"
proof (induction ms arbitrary: n d)
  case Nil
  then show ?case by simp
next
  case (Cons m ms)
  from Cons.prems(1) have m: "set m \<subseteq> fst ` set pd" by simp
  from package_set_loop_ok [OF m, of "[]"] obtain s where
    s: "package_set_loop pd m [] = Inr s" "set s = (\<lambda>p. the (map_of pd p)) ` set m" "distinct s"
    by auto
  have "int n \<notin> set (map fst d)"
    unfolding Cons.prems(2) by auto
  then have fresh: "map_of d (int n) = None"
    by (simp add: map_of_eq_None_iff)
  define d1 where "d1 = d @ [(int n, list_of_set s)]"
  have step: "manifest_ids_loop pd (m # ms) (int n) d = manifest_ids_loop pd ms (int (Suc n)) d1"
    using s(1) fresh by (simp add: update_fresh d1_def add.commute)
  have keys: "map fst d1 = map int [0..<Suc n]"
    using Cons.prems(2) by (simp add: d1_def)
  from Cons.prems(1) have rest: "\<forall>m \<in> set ms. set m \<subseteq> fst ` set pd" by simp
  from Cons.IH [OF rest keys] obtain d' where
    d': "manifest_ids_loop pd ms (int (Suc n)) d1 = Inr d'"
        "map fst d' = map int [0..<Suc n + length ms]"
        "map (\<lambda>e. set (snd e)) d' =
            map (\<lambda>e. set (snd e)) d1 @ map (\<lambda>m. (\<lambda>p. the (map_of pd p)) ` set m) ms"
        "list_all (\<lambda>e. distinct (snd e)) d1 \<longrightarrow> list_all (\<lambda>e. distinct (snd e)) d'"
    by blast
  have "manifest_ids_loop pd (m # ms) (int n) d = Inr d'"
    using step d'(1) by simp
  moreover have "map fst d' = map int [0..<n + length (m # ms)]"
    using d'(2) by simp
  moreover have "map (\<lambda>e. set (snd e)) d' =
      map (\<lambda>e. set (snd e)) d @ map (\<lambda>m. (\<lambda>p. the (map_of pd p)) ` set m) (m # ms)"
    using d'(3) s(2) by (simp add: d1_def set_list_of_set)
  moreover have "list_all (\<lambda>e. distinct (snd e)) d \<longrightarrow> list_all (\<lambda>e. distinct (snd e)) d'"
    using d'(4) s(3) by (simp add: d1_def distinct_list_of_set)
  ultimately show ?case by blast
qed

lemma numbered_keys: "map fst (numbered ks) = ks"
  by (simp add: numbered_def)

lemma numbered_values: "map snd (numbered ks) = map int [0..<length (numbered ks)]"
  by (simp add: numbered_def)

text \<open>
  C6. For every list of manifests, \<^verbatim>\<open>generate_package_id_dict\<close> numbers the package names
  in the order of their first occurrence across the manifests: the ids are pairwise
  different, they are 0, 1, 2, ... without a gap, and every name of a manifest gets one.
  On that dictionary \<^verbatim>\<open>generate_manifest_id_dict\<close> raises nothing and returns one entry per
  manifest, keyed 0, 1, 2, ... in input order, whose value holds the ids of the manifest's
  packages, each once.
\<close>

theorem identifier_mapper_ids:
  "generate_package_id_dict ms =
     zip (first_occurrences (concat ms)) (map int [0..<length (first_occurrences (concat ms))])
   \<and> distinct (map fst (generate_package_id_dict ms))
   \<and> set (map fst (generate_package_id_dict ms)) = \<Union> (set ` set ms)
   \<and> map snd (generate_package_id_dict ms) = map int [0..<length (generate_package_id_dict ms)]
   \<and> (\<exists>manifest_id_dict.
        generate_manifest_id_dict ms (generate_package_id_dict ms) = Inr manifest_id_dict
        \<and> map fst manifest_id_dict = map int [0..<length ms]
        \<and> length manifest_id_dict = length ms
        \<and> map (\<lambda>e. set (snd e)) manifest_id_dict =
            map (\<lambda>m. (\<lambda>p. the (map_of (generate_package_id_dict ms) p)) ` set m) ms
        \<and> list_all (\<lambda>e. distinct (snd e)) manifest_id_dict)"
proof -
  let ?pd = "generate_package_id_dict ms"
  have pd: "?pd = numbered (first_occurrences (concat ms))"
    by (rule generate_package_id_dict_numbered)
  have c1: "?pd = zip (first_occurrences (concat ms))
      (map int [0..<length (first_occurrences (concat ms))])"
    by (simp only: pd numbered_def)
  have keys: "map fst ?pd = first_occurrences (concat ms)"
    by (simp only: pd numbered_keys)
  have c2: "distinct (map fst ?pd)"
    by (simp only: keys distinct_first_occurrences)
  have c3: "set (map fst ?pd) = \<Union> (set ` set ms)"
    by (simp only: keys set_first_occurrences) simp
  have c4: "map snd ?pd = map int [0..<length ?pd]"
    by (simp only: pd numbered_values)
  have known: "\<forall>m \<in> set ms. set m \<subseteq> fst ` set ?pd"
    using c3 by auto
  from manifest_ids_loop_ok [OF known, of "[]" 0] obtain md where
    md: "manifest_ids_loop ?pd ms 0 [] = Inr md"
        "map fst md = map int [0..<length ms]"
        "map (\<lambda>e. set (snd e)) md = map (\<lambda>m. (\<lambda>p. the (map_of ?pd p)) ` set m) ms"
        "list_all (\<lambda>e. distinct (snd e)) md"
    by auto
  from md(2) have len: "length md = length ms"
    by (metis length_map length_upt minus_nat.diff_0)
  have c5: "\<exists>manifest_id_dict.
        generate_manifest_id_dict ms ?pd = Inr manifest_id_dict
        \<and> map fst manifest_id_dict = map int [0..<length ms]
        \<and> length manifest_id_dict = length ms
        \<and> map (\<lambda>e. set (snd e)) manifest_id_dict =
            map (\<lambda>m. (\<lambda>p. the (map_of ?pd p)) ` set m) ms
        \<and> list_all (\<lambda>e. distinct (snd e)) manifest_id_dict"
    using md len unfolding generate_manifest_id_dict_def by blast
  from c1 c2 c3 c4 c5 show ?thesis by (intro conjI)
qed

theorem identifier_mapper_ids_witness:
  "generate_package_id_dict [[''a'', ''b'', ''a''], [''b'', ''c'']] =
     [(''a'', 0), (''b'', 1), (''c'', 2)]
   \<and> distinct (map fst (generate_package_id_dict [[''a'', ''b'', ''a''], [''b'', ''c'']]))
   \<and> generate_manifest_id_dict [[''a'', ''b'', ''a''], [''b'', ''c'']]
       (generate_package_id_dict [[''a'', ''b'', ''a''], [''b'', ''c'']]) =
     Inr [(0, [0, 1]), (1, [1, 2])]"
proof -
  note t = identifier_mapper_ids [of "[[''a'', ''b'', ''a''], [''b'', ''c'']]"]
  note c2 = t [THEN conjunct2, THEN conjunct1]
  have pd: "generate_package_id_dict [[''a'', ''b'', ''a''], [''b'', ''c'']] =
     [(''a'', 0), (''b'', 1), (''c'', 2)]"
    by (simp add: generate_package_id_dict_def)
  have md: "generate_manifest_id_dict [[''a'', ''b'', ''a''], [''b'', ''c'']]
       [(''a'', 0), (''b'', 1), (''c'', 2)] = Inr [(0, [0, 1]), (1, [1, 2])]"
    by (simp add: generate_manifest_id_dict_def getitem_def list_of_set_def)
  from pd c2 md show ?thesis by (simp only: pd) 
qed

section \<open>Verification: preprocessing of the raw data\<close>

lemma generate_manifest_id_dict_length:
  "\<exists>md. generate_manifest_id_dict ms (generate_package_id_dict ms) = Inr md
        \<and> length md = length ms"
proof -
  let ?pd = "generate_package_id_dict ms"
  have "map fst ?pd = first_occurrences (concat ms)"
    by (simp only: generate_package_id_dict_numbered numbered_keys)
  then have "fst ` set ?pd = \<Union> (set ` set ms)"
    by (metis set_first_occurrences set_map set_concat)
  then have known: "\<forall>m \<in> set ms. set m \<subseteq> fst ` set ?pd"
    by auto
  from manifest_ids_loop_ok [OF known, of "[]" 0] obtain md where
    md: "manifest_ids_loop ?pd ms 0 [] = Inr md" "map fst md = map int [0..<length ms]"
    by auto
  from md(2) have "length md = length ms"
    by (metis length_map length_upt minus_nat.diff_0)
  with md(1) show ?thesis
    unfolding generate_manifest_id_dict_def by blast
qed

text \<open>
  \<^verbatim>\<open>preprocess_raw_data\<close> raises nothing: for every raw dictionary, validator and pair of
  limits it returns the two mappings, with one manifest id per validated manifest whose
  length lies strictly between the limits.
\<close>

theorem preprocess_raw_data_returns:
  "\<exists>package_id_dict manifest_id_dict.
     preprocess_raw_data validate_pypi raw_data_dict lower_limit upper_limit =
       Inr (package_id_dict, manifest_id_dict)
     \<and> length manifest_id_dict =
         length (filter (\<lambda>m. lower_limit < int (length m) \<and> int (length m) < upper_limit)
           (map validate_pypi
             (case raw_data_dict ''package_list'' of None \<Rightarrow> [] | Some l \<Rightarrow> l)))"
proof -
  let ?all = "case raw_data_dict ''package_list'' of None \<Rightarrow> [] | Some l \<Rightarrow> l"
  let ?trimmed = "trimmed_manifest_list (validate_manifest_data validate_pypi ?all)
      lower_limit upper_limit"
  from generate_manifest_id_dict_length [of ?trimmed] obtain md where
    md: "generate_manifest_id_dict ?trimmed (generate_package_id_dict ?trimmed) = Inr md"
        "length md = length ?trimmed"
    by blast
  have "preprocess_raw_data validate_pypi raw_data_dict lower_limit upper_limit =
      Inr (generate_package_id_dict ?trimmed, md)"
    using md(1) by (simp add: preprocess_raw_data_def Let_def)
  moreover have "length md =
      length (filter (\<lambda>m. lower_limit < int (length m) \<and> int (length m) < upper_limit)
        (map validate_pypi ?all))"
    using md(2) by (simp only: trimmed_manifest_list_def validate_manifest_data_map)
  ultimately show ?thesis by blast
qed

text \<open>
  An empty raw manifest list (or a raw dictionary without the key) yields an empty
  PackageIdMap and an empty ManifestIdMap, from which the builder makes an empty table.
\<close>

theorem preprocess_raw_data_empty:
  "preprocess_raw_data validate_pypi Map.empty lower_limit upper_limit = Inr ([], [])
   \<and> preprocess_raw_data validate_pypi [''package_list'' \<mapsto> []] lower_limit upper_limit =
       Inr ([], [])
   \<and> make_user_item_df [] [] = Inr []"
  by (simp add: preprocess_raw_data_def validate_manifest_data_map trimmed_manifest_list_def
      generate_package_id_dict_def generate_manifest_id_dict_def make_user_item_df_def)

section \<open>Verification: Interaction Table Builder\<close>

lemma packages_loop_rows:
  "packages_loop pd uid v acc = Inr rows \<Longrightarrow>
   length rows = length acc + length v
   \<and> (list_all (\<lambda>r. Count r = 1) acc \<longrightarrow> list_all (\<lambda>r. Count r = 1) rows)"
proof (induction v arbitrary: acc)
  case Nil
  then show ?case by simp
next
  case (Cons x v)
  then show ?case
    by (auto split: sum.splits)
qed

lemma manifest_items_loop_rows:
  "manifest_items_loop pd md acc = Inr rows \<Longrightarrow>
   length rows = length acc + sum_list (map (\<lambda>e. length (snd e)) md)
   \<and> (list_all (\<lambda>r. Count r = 1) acc \<longrightarrow> list_all (\<lambda>r. Count r = 1) rows)"
proof (induction md arbitrary: acc)
  case Nil
  then show ?case by simp
next
  case (Cons e md)
  obtain k v where e: "e = (k, v)" by (cases e)
  from Cons.prems e obtain acc' where
    a: "packages_loop pd k v acc = Inr acc'" and
    b: "manifest_items_loop pd md acc' = Inr rows"
    by (auto split: sum.splits)
  from packages_loop_rows [OF a] Cons.IH [OF b] e show ?case
    by auto
qed

lemma getitem_names_KeyError:
  "list_all (\<lambda>e. \<exists>s. fst e = KStr s) pd \<Longrightarrow> getitem pd (KInt i) = Inl KeyError"
proof -
  assume "list_all (\<lambda>e. \<exists>s. fst e = KStr s) pd"
  then have "KInt i \<notin> fst ` set pd"
    by (auto simp: list_all_iff)
  then have "map_of pd (KInt i) = None"
    by (simp add: map_of_eq_None_iff)
  then show ?thesis by (simp add: getitem_def)
qed

lemma manifest_items_loop_KeyError:
  "list_all (\<lambda>e. \<exists>s. fst e = KStr s) pd \<Longrightarrow> list_ex (\<lambda>e. snd e \<noteq> []) md \<Longrightarrow>
   manifest_items_loop pd md acc = Inl KeyError"
proof (induction md arbitrary: acc)
  case Nil
  then show ?case by simp
next
  case (Cons e md)
  obtain k v where e: "e = (k, v)" by (cases e)
  show ?case
  proof (cases v)
    case Nil
    with Cons e show ?thesis by simp
  next
    case (Cons x xs)
    with getitem_names_KeyError [OF \<open>list_all (\<lambda>e. \<exists>s. fst e = KStr s) pd\<close>] e
    show ?thesis by simp
  qed
qed

lemma pipeline_dicts:
  fixes ms :: "string list list"
  defines "names \<equiv> map (map KStr) ms"
  shows "list_all (\<lambda>e. \<exists>s. fst e = KStr s) (generate_package_id_dict names)
    \<and> (\<exists>md. generate_manifest_id_dict names (generate_package_id_dict names) = Inr md
          \<and> (list_ex (\<lambda>m. m \<noteq> []) ms \<longrightarrow> list_ex (\<lambda>e. snd e \<noteq> []) md))"
proof -
  let ?pd = "generate_package_id_dict names"
  have keys: "map fst ?pd = first_occurrences (concat names)"
    by (simp only: generate_package_id_dict_numbered numbered_keys)
  then have keyset: "fst ` set ?pd = \<Union> (set ` set names)"
    by (metis set_first_occurrences set_map set_concat)
  have strs: "list_all (\<lambda>e. \<exists>s. fst e = KStr s) ?pd"
    unfolding list_all_iff
  proof
    fix e assume "e \<in> set ?pd"
    then have "fst e \<in> \<Union> (set ` set names)"
      using keyset by blast
    then show "\<exists>s. fst e = KStr s"
      by (auto simp: names_def)
  qed
  have known: "\<forall>m \<in> set names. set m \<subseteq> fst ` set ?pd"
    using keyset by auto
  from manifest_ids_loop_ok [OF known, of "[]" 0] obtain md where
    md: "manifest_ids_loop ?pd names 0 [] = Inr md"
        "map (\<lambda>e. set (snd e)) md = map (\<lambda>m. (\<lambda>p. the (map_of ?pd p)) ` set m) names"
    by auto
  have "list_ex (\<lambda>e. snd e \<noteq> []) md" if ne: "list_ex (\<lambda>m. m \<noteq> []) ms"
  proof -
    from ne have "list_ex (\<lambda>m. m \<noteq> []) names"
      by (auto simp: names_def list_ex_iff)
    then have "\<exists>S \<in> set (map (\<lambda>m. (\<lambda>p. the (map_of ?pd p)) ` set m) names). S \<noteq> {}"
      by (auto simp: list_ex_iff)
    then have "\<exists>S \<in> set (map (\<lambda>e. set (snd e)) md). S \<noteq> {}"
      by (simp only: md(2))
    then show ?thesis
      by (auto simp: list_ex_iff)
  qed
  with strs md(1) show ?thesis
    unfolding generate_manifest_id_dict_def by blast
qed

text \<open>
  C8. The claim: for every ManifestIdMap and PackageIdMap the builder emits one record
  (user = manifest id, item = package id, count = 1) per package id of every manifest.
  The code does not: \<^verbatim>\<open>make_user_item_df\<close> subscripts the name-keyed PackageIdMap with the
  package id. For every list of manifests of package names with at least one non-empty
  manifest, the two dictionaries of the Identifier Mapper are built without an error and
  \<^verbatim>\<open>make_user_item_df\<close> on them raises \<^verbatim>\<open>KeyError\<close>.
\<close>

theorem make_user_item_df_pipeline_KeyError:
  fixes ms :: "string list list"
  shows "list_ex (\<lambda>m. m \<noteq> []) ms \<Longrightarrow>
    \<exists>manifest_id_dict.
      generate_manifest_id_dict (map (map KStr) ms)
        (generate_package_id_dict (map (map KStr) ms)) = Inr manifest_id_dict
      \<and> make_user_item_df manifest_id_dict (generate_package_id_dict (map (map KStr) ms)) =
          Inl KeyError"
proof -
  assume ne: "list_ex (\<lambda>m. m \<noteq> []) ms"
  from pipeline_dicts [of ms] ne obtain md where
    strs: "list_all (\<lambda>e. \<exists>s. fst e = KStr s) (generate_package_id_dict (map (map KStr) ms))" and
    md: "generate_manifest_id_dict (map (map KStr) ms)
           (generate_package_id_dict (map (map KStr) ms)) = Inr md" and
    some: "list_ex (\<lambda>e. snd e \<noteq> []) md"
    by blast
  from manifest_items_loop_KeyError [OF strs some, of "[]"]
  have "make_user_item_df md (generate_package_id_dict (map (map KStr) ms)) = Inl KeyError"
    by (simp add: make_user_item_df_def)
  with md show ?thesis by blast
qed

theorem make_user_item_df_pipeline_KeyError_witness:
  "list_ex (\<lambda>m. m \<noteq> []) [[''numpy'']]
   \<and> generate_package_id_dict [[KStr ''numpy'']] = [(KStr ''numpy'', 0)]
   \<and> generate_manifest_id_dict [[KStr ''numpy'']] [(KStr ''numpy'', 0)] = Inr [(0, [0])]
   \<and> make_user_item_df [(0, [0])] [(KStr ''numpy'', 0)] = Inl KeyError"
proof -
  have h: "list_ex (\<lambda>m. m \<noteq> []) [[''numpy'']]" by simp
  have pd: "generate_package_id_dict [[KStr ''numpy'']] = [(KStr ''numpy'', 0)]"
    by (simp add: generate_package_id_dict_def)
  have md: "generate_manifest_id_dict [[KStr ''numpy'']] [(KStr ''numpy'', 0)] = Inr [(0, [0])]"
    by (simp add: generate_manifest_id_dict_def getitem_def list_of_set_def)
  from make_user_item_df_pipeline_KeyError [OF h]
  have "make_user_item_df [(0, [0])] [(KStr ''numpy'', 0)] = Inl KeyError"
    by (simp add: pd md)
  with h pd md show ?thesis by (intro conjI)
qed

text \<open>
  Whenever \<^verbatim>\<open>make_user_item_df\<close> does return, it has appended one row per element of every
  manifest's list, each with count 1.
\<close>

theorem make_user_item_df_rows:
  "make_user_item_df manifest_dict package_dict = Inr rows \<Longrightarrow>
   length rows = sum_list (map (\<lambda>e. length (snd e)) manifest_dict)
   \<and> list_all (\<lambda>r. Count r = 1) rows"
  using manifest_items_loop_rows [of package_dict manifest_dict "[]" rows]
  by (simp add: make_user_item_df_def)

theorem make_user_item_df_rows_witness:
  "make_user_item_df [(0, [0, 1]), (1, [1])] [(KInt 0, 0), (KInt 1, 1)] =
     Inr [\<lparr>UserId = 0, ItemId = 0, Count = 1\<rparr>, \<lparr>UserId = 0, ItemId = 1, Count = 1\<rparr>,
          \<lparr>UserId = 1, ItemId = 1, Count = 1\<rparr>]
   \<and> length [\<lparr>UserId = 0, ItemId = 0, Count = 1\<rparr>, \<lparr>UserId = 0, ItemId = 1, Count = 1\<rparr>,
          \<lparr>UserId = 1, ItemId = 1, Count = 1\<rparr>] =
       sum_list (map (\<lambda>e. length (snd e)) [(0, [0, 1 :: int]), (1 :: int, [1])])"
proof -
  have h: "make_user_item_df [(0, [0, 1]), (1, [1])] [(KInt 0, 0), (KInt 1, 1)] =
     Inr [\<lparr>UserId = 0, ItemId = 0, Count = 1\<rparr>, \<lparr>UserId = 0, ItemId = 1, Count = 1\<rparr>,
          \<lparr>UserId = 1, ItemId = 1, Count = 1\<rparr>]"
    by (simp add: make_user_item_df_def getitem_def)
  from h make_user_item_df_rows [OF h, THEN conjunct1] show ?thesis by (intro conjI)
qed

section \<open>Verification: Coverage-Preserving Splitter\<close>

text \<open>
  C1. The claim: for every interaction table the returned train set holds every user id
  and every item id of the table, train and test together are the table, and they are
  disjoint. The code returns no train and test set at all: for every table and every
  outcome of the shuffles, \<^verbatim>\<open>train_test_split\<close> raises \<^verbatim>\<open>TypeError\<close> at line 177.
\<close>

theorem train_test_split_returns_nothing:
  "train_test_split sample1 sample2 sample3 data_df = Inl TypeError
   \<and> train_test_split sample1 sample2 sample3 data_df \<noteq> Inr (train_df, test_df)"
  by (simp add: train_test_split_def Let_def)

text \<open>
  C2. The claim: the realized train fraction is the size of train divided by the size of
  the table, and a fraction below 0.80 is topped up from the rest of the table. The code
  hands the two data frames themselves to \<^verbatim>\<open>Fraction\<close>, the table first. On the table
  of two users and two items, whose coverage train set has 3 of the 4 rows, the call raises
  \<^verbatim>\<open>TypeError\<close> (as it does for any two data frames) and so does \<^verbatim>\<open>train_test_split\<close>:
  no fraction is computed and no top-up is drawn.
\<close>

theorem train_test_split_fraction_raises:
  "coverage_train (\<lambda>df. df) (\<lambda>df. df)
     [\<lparr>UserId = 0, ItemId = 0, Count = 1\<rparr>, \<lparr>UserId = 0, ItemId = 1, Count = 1\<rparr>,
      \<lparr>UserId = 1, ItemId = 0, Count = 1\<rparr>, \<lparr>UserId = 1, ItemId = 1, Count = 1\<rparr>] =
     [\<lparr>UserId = 0, ItemId = 0, Count = 1\<rparr>, \<lparr>UserId = 1, ItemId = 0, Count = 1\<rparr>,
      \<lparr>UserId = 0, ItemId = 1, Count = 1\<rparr>]
   \<and> py_Fraction (PyDataFrame data_df) (PyDataFrame train_df) = Inl TypeError
   \<and> train_test_split (\<lambda>df. df) (\<lambda>df. df) (\<lambda>df. df)
       [\<lparr>UserId = 0, ItemId = 0, Count = 1\<rparr>, \<lparr>UserId = 0, ItemId = 1, Count = 1\<rparr>,
        \<lparr>UserId = 1, ItemId = 0, Count = 1\<rparr>, \<lparr>UserId = 1, ItemId = 1, Count = 1\<rparr>] =
     Inl TypeError"
  by (simp add: coverage_train_def train_test_split_def drop_duplicates_on_def
      drop_duplicates_def Let_def)

lemma keep_first_subset: "set (keep_first key seen xs) \<subseteq> set xs"
  by (induction xs arbitrary: seen) auto

lemma keep_first_keys: "key ` set (keep_first key seen xs) = key ` set xs - set seen"
  by (induction xs arbitrary: seen) auto

lemma keep_first_distinct:
  "distinct (map key (keep_first key seen xs))"
proof (induction xs arbitrary: seen)
  case Nil
  then show ?case by simp
next
  case (Cons x xs)
  have "key x \<notin> key ` set (keep_first key (key x # seen) xs)"
    by (simp add: keep_first_keys)
  with Cons show ?case by simp
qed

lemma keep_first_set_id: "set (keep_first (\<lambda>row. row) [] xs) = set xs"
  using keep_first_keys [of "\<lambda>row. row" "[]" xs] by simp

text \<open>
  The train set as it stands after line 176 does cover the table: when the two shuffles
  keep the rows of the table, every user id and every item id of the table occurs in it,
  its rows are rows of the table, and no row is repeated.
\<close>

theorem coverage_train_covers:
  "set (sample1 data_df) = set data_df \<Longrightarrow> set (sample2 (sample1 data_df)) = set data_df \<Longrightarrow>
   UserId ` set (coverage_train sample1 sample2 data_df) = UserId ` set data_df
   \<and> ItemId ` set (coverage_train sample1 sample2 data_df) = ItemId ` set data_df
   \<and> set (coverage_train sample1 sample2 data_df) \<subseteq> set data_df
   \<and> distinct (coverage_train sample1 sample2 data_df)"
proof -
  assume s1: "set (sample1 data_df) = set data_df"
    and s2: "set (sample2 (sample1 data_df)) = set data_df"
  let ?u = "keep_first UserId [] (sample1 data_df)"
  let ?i = "keep_first ItemId [] (sample2 (sample1 data_df))"
  have ct: "set (coverage_train sample1 sample2 data_df) = set ?u \<union> set ?i"
    by (simp add: coverage_train_def drop_duplicates_def drop_duplicates_on_def Let_def
        keep_first_set_id)
  have u: "UserId ` set ?u = UserId ` set data_df"
    using keep_first_keys [of UserId "[]" "sample1 data_df"] s1 by simp
  have i: "ItemId ` set ?i = ItemId ` set data_df"
    using keep_first_keys [of ItemId "[]" "sample2 (sample1 data_df)"] s2 by simp
  have su: "set ?u \<subseteq> set data_df"
    using keep_first_subset [of UserId "[]" "sample1 data_df"] s1 by simp
  have si: "set ?i \<subseteq> set data_df"
    using keep_first_subset [of ItemId "[]" "sample2 (sample1 data_df)"] s2 by simp
  have a: "UserId ` set (coverage_train sample1 sample2 data_df) = UserId ` set data_df"
    using ct u su si by auto
  have b: "ItemId ` set (coverage_train sample1 sample2 data_df) = ItemId ` set data_df"
    using ct i su si by auto
  have c: "set (coverage_train sample1 sample2 data_df) \<subseteq> set data_df"
    using ct su si by auto
  have d: "distinct (coverage_train sample1 sample2 data_df)"
    using keep_first_distinct [of "\<lambda>row. row" "[]"]
    by (simp add: coverage_train_def drop_duplicates_def Let_def)
  from a b c d show ?thesis by (intro conjI)
qed

theorem coverage_train_covers_witness:
  "set ((\<lambda>df. df) [\<lparr>UserId = 0, ItemId = 0, Count = 1\<rparr>, \<lparr>UserId = 1, ItemId = 1, Count = 1\<rparr>]) =
     set [\<lparr>UserId = 0, ItemId = 0, Count = 1\<rparr>, \<lparr>UserId = 1, ItemId = 1, Count = 1\<rparr>]
   \<and> UserId ` set (coverage_train (\<lambda>df. df) (\<lambda>df. df)
        [\<lparr>UserId = 0, ItemId = 0, Count = 1\<rparr>, \<lparr>UserId = 1, ItemId = 1, Count = 1\<rparr>]) =
       UserId ` set [\<lparr>UserId = 0, ItemId = 0, Count = 1\<rparr>, \<lparr>UserId = 1, ItemId = 1, Count = 1\<rparr>]"
proof -
  have h: "set ((\<lambda>df. df) [\<lparr>UserId = 0, ItemId = 0, Count = 1\<rparr>, \<lparr>UserId = 1, ItemId = 1, Count = 1\<rparr>]) =
     set [\<lparr>UserId = 0, ItemId = 0, Count = 1\<rparr>, \<lparr>UserId = 1, ItemId = 1, Count = 1\<rparr>]"
    by simp
  from h coverage_train_covers [of "\<lambda>df. df" _ "\<lambda>df. df", OF h h, THEN conjunct1]
  show ?thesis by (intro conjI)
qed

section \<open>Verification: Evaluator\<close>

text \<open>
  C3. The claim: the evaluator walks the user ids below the number of known users and
  returns the arithmetic mean of the per-user metric over the users not skipped. The code
  does not: \<^verbatim>\<open>precision_recall_at_m\<close> passes a bound method as \<^verbatim>\<open>user_count\<close>, so for
  every cutoff, test table and model \<^verbatim>\<open>range(user_count)\<close> raises \<^verbatim>\<open>TypeError\<close>, which
  the handler for \<^verbatim>\<open>ValueError\<close> lets through; and with an integer \<^verbatim>\<open>user_count\<close>,
  \<^verbatim>\<open>recall_at_m\<close> and \<^verbatim>\<open>precision_at_m\<close> raise \<^verbatim>\<open>TypeError\<close> in \<^verbatim>\<open>numpy.mean\<close> as soon as
  one user is not skipped, because the samples are dictionaries. Only when every user is
  skipped does the call return, with \<^verbatim>\<open>nan\<close>.
\<close>

theorem evaluator_raises_TypeError:
  "precision_recall_at_m m test_df topN user_item_df = Inl TypeError
   \<and> recall_at_m 1 [\<lparr>UserId = 0, ItemId = 7, Count = 1\<rparr>] (\<lambda>user n. [7]) (PyInt 1) = Inl TypeError
   \<and> precision_at_m 1 [\<lparr>UserId = 0, ItemId = 7, Count = 1\<rparr>] (\<lambda>user n. [7]) (PyInt 1) =
       Inl TypeError
   \<and> recall_at_m 1 [] (\<lambda>user n. [7]) (PyInt 1) = Inr PyNaN"
  by (simp add: precision_recall_at_m_def precision_at_m_def recall_at_m_def np_mean_def
      true_div_def truth_def intersect1d_def Let_def)

lemma recall_loop_samples:
  "recall_loop m test_df topN users acc =
     Inr (acc @ map (recall_sample m test_df topN) (filter (\<lambda>i. truth test_df i \<noteq> []) users))"
  by (induction users arbitrary: acc) (simp_all add: true_div_def recall_sample_def Let_def)

lemma precision_loop_samples:
  "precision_loop m test_df topN users acc =
     Inr (acc @ map (precision_sample m test_df topN) (filter (\<lambda>i. topN i m \<noteq> []) users))"
  by (induction users arbitrary: acc) (simp_all add: true_div_def precision_sample_def Let_def)

lemma sample_user_recall: "sample_user (recall_sample m test_df topN i) = Some i"
  by (simp add: recall_sample_def)

lemma sample_user_precision: "sample_user (precision_sample m test_df topN i) = Some i"
  by (simp add: precision_sample_def)

text \<open>
  C5. A zero denominator is not an error. The loop of \<^verbatim>\<open>recall_at_m\<close> raises nothing
  and appends a sample for exactly the users whose truth array is not empty; the loop of
  \<^verbatim>\<open>precision_at_m\<close> raises nothing and appends a sample for exactly the users with at
  least one recommendation. A user with a zero denominator leaves the list of samples as
  it was, and a run in which every user has a zero denominator returns \<^verbatim>\<open>nan\<close> without
  an exception.
\<close>

theorem zero_denominator_users_skipped:
  "recall_loop m test_df topN users [] =
     Inr (map (recall_sample m test_df topN) (filter (\<lambda>i. truth test_df i \<noteq> []) users))
   \<and> precision_loop m test_df topN users [] =
     Inr (map (precision_sample m test_df topN) (filter (\<lambda>i. topN i m \<noteq> []) users))
   \<and> (truth test_df i = [] \<longrightarrow>
        recall_loop m test_df topN (i # users) recall = recall_loop m test_df topN users recall)
   \<and> (topN i m = [] \<longrightarrow>
        precision_loop m test_df topN (i # users) precision =
        precision_loop m test_df topN users precision)
   \<and> (list_all (\<lambda>i. truth test_df i = []) (map int [0..<nat n]) \<longrightarrow>
        recall_at_m m test_df topN (PyInt n) = Inr PyNaN)
   \<and> (list_all (\<lambda>i. topN i m = []) (map int [0..<nat n]) \<longrightarrow>
        precision_at_m m test_df topN (PyInt n) = Inr PyNaN)"
proof -
  have r: "recall_loop m test_df topN users [] =
     Inr (map (recall_sample m test_df topN) (filter (\<lambda>i. truth test_df i \<noteq> []) users))"
    by (simp add: recall_loop_samples)
  have p: "precision_loop m test_df topN users [] =
     Inr (map (precision_sample m test_df topN) (filter (\<lambda>i. topN i m \<noteq> []) users))"
    by (simp add: precision_loop_samples)
  have rs: "truth test_df i = [] \<longrightarrow>
        recall_loop m test_df topN (i # users) recall = recall_loop m test_df topN users recall"
    by (simp add: true_div_def Let_def)
  have ps: "topN i m = [] \<longrightarrow>
        precision_loop m test_df topN (i # users) precision =
        precision_loop m test_df topN users precision"
    by (simp add: true_div_def Let_def)
  have rn: "list_all (\<lambda>i. truth test_df i = []) (map int [0..<nat n]) \<longrightarrow>
        recall_at_m m test_df topN (PyInt n) = Inr PyNaN"
  proof
    assume "list_all (\<lambda>i. truth test_df i = []) (map int [0..<nat n])"
    then have "filter (\<lambda>i. truth test_df i \<noteq> []) (map int [0..<nat n]) = []"
      by (simp add: list_all_iff filter_empty_conv)
    then show "recall_at_m m test_df topN (PyInt n) = Inr PyNaN"
      by (simp add: recall_at_m_def recall_loop_samples np_mean_def)
  qed
  have pn: "list_all (\<lambda>i. topN i m = []) (map int [0..<nat n]) \<longrightarrow>
        precision_at_m m test_df topN (PyInt n) = Inr PyNaN"
  proof
    assume "list_all (\<lambda>i. topN i m = []) (map int [0..<nat n])"
    then have "filter (\<lambda>i. topN i m \<noteq> []) (map int [0..<nat n]) = []"
      by (simp add: list_all_iff filter_empty_conv)
    then show "precision_at_m m test_df topN (PyInt n) = Inr PyNaN"
      by (simp add: precision_at_m_def precision_loop_samples np_mean_def)
  qed
  from r p rs ps rn pn show ?thesis by (intro conjI)
qed

theorem zero_denominator_users_skipped_witness:
  "truth one_row_test 1 = []
   \<and> recall_loop 1 one_row_test first_user_only [1, 0] [] =
       recall_loop 1 one_row_test first_user_only [0] []
   \<and> recall_loop 1 one_row_test first_user_only [0, 1] [] =
       Inr [PyDict [(''recall'', PyFloat 1), (''length'', PyInt 1), (''user'', PyInt 0)]]
   \<and> first_user_only 1 1 = []
   \<and> precision_loop 1 one_row_test first_user_only [1, 0] [] =
       precision_loop 1 one_row_test first_user_only [0] []
   \<and> list_all (\<lambda>i. truth [] i = []) (map int [0..<nat 2])
   \<and> recall_at_m 1 [] first_user_only (PyInt 2) = Inr PyNaN
   \<and> list_all (\<lambda>i. first_user_only i 1 = []) (map int [0..<nat 0])
   \<and> precision_at_m 1 one_row_test first_user_only (PyInt 0) = Inr PyNaN"
proof -
  have h1: "truth one_row_test 1 = []"
    by (simp add: truth_def one_row_test_def)
  have h2: "first_user_only 1 1 = []"
    by (simp add: first_user_only_def)
  have h3: "list_all (\<lambda>i. truth [] i = []) (map int [0..<nat 2])"
    by (simp add: truth_def list_all_iff)
  have h4: "list_all (\<lambda>i. first_user_only i 1 = []) (map int [0..<nat 0])"
    by simp
  note t = zero_denominator_users_skipped
  note c3 = t [where test_df = one_row_test and i = 1 and m = 1 and topN = first_user_only
      and users = "[0]" and recall = "[]",
      THEN conjunct2, THEN conjunct2, THEN conjunct1, THEN mp, OF h1]
  note c4 = t [where test_df = one_row_test and i = 1 and m = 1 and topN = first_user_only
      and users = "[0]" and precision = "[]",
      THEN conjunct2, THEN conjunct2, THEN conjunct2, THEN conjunct1, THEN mp, OF h2]
  note c5 = t [where test_df = "[]" and m = 1 and topN = first_user_only and n = 2,
      THEN conjunct2, THEN conjunct2, THEN conjunct2, THEN conjunct2, THEN conjunct1,
      THEN mp, OF h3]
  note c6 = t [where test_df = one_row_test and m = 1 and topN = first_user_only and n = 0,
      THEN conjunct2, THEN conjunct2, THEN conjunct2, THEN conjunct2, THEN conjunct2,
      THEN mp, OF h4]
  have e: "recall_loop 1 one_row_test first_user_only [0, 1] [] =
       Inr [PyDict [(''recall'', PyFloat 1), (''length'', PyInt 1), (''user'', PyInt 0)]]"
    by (simp add: truth_def one_row_test_def first_user_only_def true_div_def intersect1d_def)
  from h1 c3 e h2 c4 h3 c5 h4 c6 show ?thesis by (intro conjI)
qed

section \<open>Verification: Artifact Publisher\<close>

lemma write_json_file_status: "fst (write_json_file s3 path c) = accepts s3 path"
  by (simp add: write_json_file_def)

lemma write_json_file_accepts: "accepts (snd (write_json_file s3 path c)) = accepts s3"
  by (simp add: write_json_file_def)

lemma write_json_file_log:
  "write_log (snd (write_json_file s3 path c)) = write_log s3 @ [path]"
  by (simp add: write_json_file_def)

lemma write_json_file_exists:
  "object_exists (snd (write_json_file s3 path c)) q =
     (object_exists s3 q \<or> (accepts s3 path \<and> q = path))"
  by (auto simp: write_json_file_def object_exists_def)

lemma save_dictionaries_present:
  "object_exists s3 P \<Longrightarrow> object_exists s3 M \<Longrightarrow>
   save_dictionaries P M s3 p m = (Inr (), s3)"
  by (simp add: save_dictionaries_def)

lemma save_dictionaries_missing:
  "\<not> (object_exists s3 P \<and> object_exists s3 M) \<Longrightarrow>
   save_dictionaries P M s3 p m =
     (if \<not> accepts s3 P \<or> accepts s3 M
      then Inl (Exception ''Unable to store data files for scoring'') else Inr (),
      snd (write_json_file (snd (write_json_file s3 P p)) M m))"
  by (auto simp: save_dictionaries_def write_json_file_def split: prod.splits)

text \<open>
  C4. The claim: an ``unable to store'' exception is raised exactly when an attempted
  write reports failure. For \<^verbatim>\<open>save_hyperparams\<close> that is what the code does. In
  \<^verbatim>\<open>save_dictionaries\<close> the test of line 267 is \<^verbatim>\<open>not pkg_status or mnf_status\<close>: when
  the two writes are attempted, the exception is raised exactly when the package write
  fails or the manifest write succeeds. So it is raised when both writes succeed, and it
  is not raised when only the manifest write fails.
\<close>

theorem save_dictionaries_raise_condition:
  "(\<not> (object_exists s3 P \<and> object_exists s3 M) \<longrightarrow>
      (isl (fst (save_dictionaries P M s3 p m)) \<longleftrightarrow>
         \<not> fst (write_json_file s3 P p)
         \<or> fst (write_json_file (snd (write_json_file s3 P p)) M m)))
   \<and> (isl (fst (save_hyperparams H s3 c)) \<longleftrightarrow> \<not> fst (write_json_file s3 H c))"
proof -
  have a: "\<not> (object_exists s3 P \<and> object_exists s3 M) \<longrightarrow>
      (isl (fst (save_dictionaries P M s3 p m)) \<longleftrightarrow>
         \<not> fst (write_json_file s3 P p)
         \<or> fst (write_json_file (snd (write_json_file s3 P p)) M m))"
    by (simp add: save_dictionaries_missing write_json_file_status write_json_file_accepts)
  have b: "isl (fst (save_hyperparams H s3 c)) \<longleftrightarrow> \<not> fst (write_json_file s3 H c)"
    by (simp add: save_hyperparams_def write_json_file_def)
  from a b show ?thesis by (intro conjI)
qed

theorem save_dictionaries_raise_condition_witness:
  "\<not> (object_exists fresh_bucket ''pkg.json'' \<and> object_exists fresh_bucket ''mnf.json'')
   \<and> fst (write_json_file fresh_bucket ''pkg.json'' ''packages'') = True
   \<and> fst (write_json_file (snd (write_json_file fresh_bucket ''pkg.json'' ''packages''))
         ''mnf.json'' ''manifests'') = True
   \<and> isl (fst (save_dictionaries ''pkg.json'' ''mnf.json'' fresh_bucket ''packages'' ''manifests''))
   \<and> fst (save_dictionaries ''pkg.json'' ''mnf.json'' fresh_bucket ''packages'' ''manifests'') =
       Inl (Exception ''Unable to store data files for scoring'')"
proof -
  have h: "\<not> (object_exists fresh_bucket ''pkg.json'' \<and> object_exists fresh_bucket ''mnf.json'')"
    by (simp add: object_exists_def fresh_bucket_def)
  have w1: "fst (write_json_file fresh_bucket ''pkg.json'' ''packages'') = True"
    by (simp add: write_json_file_def fresh_bucket_def)
  have w2: "fst (write_json_file (snd (write_json_file fresh_bucket ''pkg.json'' ''packages''))
      ''mnf.json'' ''manifests'') = True"
    by (simp add: write_json_file_def fresh_bucket_def)
  note t = save_dictionaries_raise_condition
      [of fresh_bucket "''pkg.json''" "''mnf.json''" "''packages''" "''manifests''",
       THEN conjunct1, THEN mp, OF h]
  from t w2 have r: "isl (fst (save_dictionaries ''pkg.json'' ''mnf.json'' fresh_bucket
      ''packages'' ''manifests''))"
    by (simp only: simp_thms)
  have e: "fst (save_dictionaries ''pkg.json'' ''mnf.json'' fresh_bucket ''packages'' ''manifests'') =
       Inl (Exception ''Unable to store data files for scoring'')"
    by (simp add: save_dictionaries_def write_json_file_def object_exists_def fresh_bucket_def)
  from h w1 w2 r e show ?thesis by (intro conjI)
qed

text \<open>
  C9, as stated, fails: with only the package mapping present in the bucket,
  \<^verbatim>\<open>save_dictionaries\<close> attempts both writes and replaces the stored package mapping.
\<close>

theorem save_dictionaries_overwrites_counterexample:
  "object_exists half_written_bucket ''pkg.json''
   \<and> objects half_written_bucket ''pkg.json'' = Some ''old packages''
   \<and> objects (snd (save_dictionaries ''pkg.json'' ''mnf.json'' half_written_bucket
        ''new packages'' ''manifests'')) ''pkg.json'' = Some ''new packages''
   \<and> write_log (snd (save_dictionaries ''pkg.json'' ''mnf.json'' half_written_bucket
        ''new packages'' ''manifests'')) = [''pkg.json'', ''mnf.json'']"
  by (simp add: save_dictionaries_def write_json_file_def object_exists_def
      half_written_bucket_def)

lemma save_dictionaries_missing_state:
  "\<not> (object_exists s3 P \<and> object_exists s3 M) \<Longrightarrow>
   snd (save_dictionaries P M s3 p m) =
     s3\<lparr>objects :=
          (\<lambda>path. if path = M \<and> accepts s3 M then Some m
                   else if path = P \<and> accepts s3 P then Some p
                   else objects s3 path),
        write_log := write_log s3 @ [P, M]\<rparr>"
  by (auto simp: save_dictionaries_def write_json_file_def fun_eq_iff split: prod.splits)

text \<open>
  C9, amended. When both mappings are already in the bucket, \<^verbatim>\<open>save_dictionaries\<close>
  writes nothing, raises nothing and leaves the bucket as it is. When one of them is
  missing it attempts both writes, the package mapping first, and the bucket afterwards
  is exactly this: every write that the backend stores puts the new contents at its
  path, in place of a mapping that was there, a write that the backend refuses leaves the
  stored object as it was, and nothing else changes. When the backend stores writes to
  both paths, a second call after a first one writes nothing: the mappings are written
  once.
\<close>

theorem save_dictionaries_first_write_wins:
  "(object_exists s3 P \<and> object_exists s3 M \<longrightarrow>
      save_dictionaries P M s3 p m = (Inr (), s3))
   \<and> (\<not> (object_exists s3 P \<and> object_exists s3 M) \<longrightarrow>
      snd (save_dictionaries P M s3 p m) =
        s3\<lparr>objects :=
             (\<lambda>path. if path = M \<and> accepts s3 M then Some m
                      else if path = P \<and> accepts s3 P then Some p
                      else objects s3 path),
           write_log := write_log s3 @ [P, M]\<rparr>)
   \<and> (\<not> (object_exists s3 P \<and> object_exists s3 M) \<and> accepts s3 P \<and> P \<noteq> M \<longrightarrow>
      objects (snd (save_dictionaries P M s3 p m)) P = Some p)
   \<and> (\<not> (object_exists s3 P \<and> object_exists s3 M) \<and> accepts s3 M \<longrightarrow>
      objects (snd (save_dictionaries P M s3 p m)) M = Some m)
   \<and> (\<not> (object_exists s3 P \<and> object_exists s3 M) \<and> \<not> accepts s3 P \<and> \<not> accepts s3 M \<longrightarrow>
      objects (snd (save_dictionaries P M s3 p m)) = objects s3
      \<and> write_log (snd (save_dictionaries P M s3 p m)) = write_log s3 @ [P, M])
   \<and> (accepts s3 P \<and> accepts s3 M \<longrightarrow>
      save_dictionaries P M (snd (save_dictionaries P M s3 p m)) p m =
        (Inr (), snd (save_dictionaries P M s3 p m)))"
proof -
  have a: "object_exists s3 P \<and> object_exists s3 M \<longrightarrow>
      save_dictionaries P M s3 p m = (Inr (), s3)"
    by (simp add: save_dictionaries_present)
  have b: "\<not> (object_exists s3 P \<and> object_exists s3 M) \<longrightarrow>
      snd (save_dictionaries P M s3 p m) =
        s3\<lparr>objects :=
             (\<lambda>path. if path = M \<and> accepts s3 M then Some m
                      else if path = P \<and> accepts s3 P then Some p
                      else objects s3 path),
           write_log := write_log s3 @ [P, M]\<rparr>"
    using save_dictionaries_missing_state [of s3 P M p m] by blast
  have c: "\<not> (object_exists s3 P \<and> object_exists s3 M) \<and> accepts s3 P \<and> P \<noteq> M \<longrightarrow>
      objects (snd (save_dictionaries P M s3 p m)) P = Some p"
    using save_dictionaries_missing_state [of s3 P M p m] by auto
  have d: "\<not> (object_exists s3 P \<and> object_exists s3 M) \<and> accepts s3 M \<longrightarrow>
      objects (snd (save_dictionaries P M s3 p m)) M = Some m"
    using save_dictionaries_missing_state [of s3 P M p m] by auto
  have e: "\<not> (object_exists s3 P \<and> object_exists s3 M) \<and> \<not> accepts s3 P \<and> \<not> accepts s3 M \<longrightarrow>
      objects (snd (save_dictionaries P M s3 p m)) = objects s3
      \<and> write_log (snd (save_dictionaries P M s3 p m)) = write_log s3 @ [P, M]"
    using save_dictionaries_missing_state [of s3 P M p m] by (auto simp: fun_eq_iff)
  have f: "accepts s3 P \<and> accepts s3 M \<longrightarrow>
      save_dictionaries P M (snd (save_dictionaries P M s3 p m)) p m =
        (Inr (), snd (save_dictionaries P M s3 p m))"
  proof
    assume acc: "accepts s3 P \<and> accepts s3 M"
    let ?s' = "snd (save_dictionaries P M s3 p m)"
    have "object_exists ?s' P \<and> object_exists ?s' M"
    proof (cases "object_exists s3 P \<and> object_exists s3 M")
      case True
      then show ?thesis by (simp add: save_dictionaries_present)
    next
      case False
      then show ?thesis
        using acc
        by (simp add: save_dictionaries_missing write_json_file_exists write_json_file_accepts)
    qed
    then show "save_dictionaries P M ?s' p m = (Inr (), ?s')"
      by (simp add: save_dictionaries_present)
  qed
  from a b c d e f show ?thesis by (intro conjI)
qed

theorem save_dictionaries_first_write_wins_witness:
  "\<not> (object_exists half_written_bucket ''pkg.json'' \<and> object_exists half_written_bucket ''mnf.json'')
   \<and> accepts half_written_bucket ''pkg.json'' \<and> accepts half_written_bucket ''mnf.json''
   \<and> ''pkg.json'' \<noteq> ''mnf.json''
   \<and> objects half_written_bucket ''pkg.json'' = Some ''old packages''
   \<and> objects (snd (save_dictionaries ''pkg.json'' ''mnf.json'' half_written_bucket
        ''new packages'' ''manifests'')) ''pkg.json'' = Some ''new packages''
   \<and> objects (snd (save_dictionaries ''pkg.json'' ''mnf.json'' half_written_bucket
        ''new packages'' ''manifests'')) ''mnf.json'' = Some ''manifests''
   \<and> \<not> (object_exists refusing_bucket ''pkg.json'' \<and> object_exists refusing_bucket ''mnf.json'')
   \<and> \<not> accepts refusing_bucket ''pkg.json'' \<and> \<not> accepts refusing_bucket ''mnf.json''
   \<and> objects (snd (save_dictionaries ''pkg.json'' ''mnf.json'' refusing_bucket
        ''new packages'' ''manifests'')) ''pkg.json'' = Some ''old packages''
   \<and> write_log (snd (save_dictionaries ''pkg.json'' ''mnf.json'' refusing_bucket
        ''new packages'' ''manifests'')) = [''pkg.json'', ''mnf.json'']
   \<and> object_exists (snd (save_dictionaries ''pkg.json'' ''mnf.json'' fresh_bucket
        ''packages'' ''manifests'')) ''pkg.json''
   \<and> object_exists (snd (save_dictionaries ''pkg.json'' ''mnf.json'' fresh_bucket
        ''packages'' ''manifests'')) ''mnf.json''
   \<and> write_log (snd (save_dictionaries ''pkg.json'' ''mnf.json'' fresh_bucket
        ''packages'' ''manifests'')) = [''pkg.json'', ''mnf.json'']
   \<and> write_log (snd (save_dictionaries ''pkg.json'' ''mnf.json''
        (snd (save_dictionaries ''pkg.json'' ''mnf.json'' fresh_bucket ''packages'' ''manifests''))
        ''packages'' ''manifests'')) = [''pkg.json'', ''mnf.json'']"
proof -
  let ?s' = "snd (save_dictionaries ''pkg.json'' ''mnf.json'' fresh_bucket ''packages'' ''manifests'')"
  have n: "\<not> (object_exists half_written_bucket ''pkg.json''
      \<and> object_exists half_written_bucket ''mnf.json'')"
    by (simp add: object_exists_def half_written_bucket_def)
  have ap: "accepts half_written_bucket ''pkg.json''" by (simp add: half_written_bucket_def)
  have am: "accepts half_written_bucket ''mnf.json''" by (simp add: half_written_bucket_def)
  have ne: "''pkg.json'' \<noteq> ''mnf.json''" by simp
  have old: "objects half_written_bucket ''pkg.json'' = Some ''old packages''"
    by (simp add: half_written_bucket_def)
  note t = save_dictionaries_first_write_wins
  note c3 = t [of half_written_bucket "''pkg.json''" "''mnf.json''" "''new packages''" "''manifests''",
      THEN conjunct2, THEN conjunct2, THEN conjunct1, THEN mp, OF conjI [OF n conjI [OF ap ne]]]
  note c4 = t [of half_written_bucket "''pkg.json''" "''mnf.json''" "''new packages''" "''manifests''",
      THEN conjunct2, THEN conjunct2, THEN conjunct2, THEN conjunct1, THEN mp, OF conjI [OF n am]]
  have rn: "\<not> (object_exists refusing_bucket ''pkg.json''
      \<and> object_exists refusing_bucket ''mnf.json'')"
    by (simp add: object_exists_def refusing_bucket_def)
  have rp: "\<not> accepts refusing_bucket ''pkg.json''" by (simp add: refusing_bucket_def)
  have rm: "\<not> accepts refusing_bucket ''mnf.json''" by (simp add: refusing_bucket_def)
  note c5 = t [of refusing_bucket "''pkg.json''" "''mnf.json''" "''new packages''" "''manifests''",
      THEN conjunct2, THEN conjunct2, THEN conjunct2, THEN conjunct2, THEN conjunct1, THEN mp,
      OF conjI [OF rn conjI [OF rp rm]]]
  have kept: "objects (snd (save_dictionaries ''pkg.json'' ''mnf.json'' refusing_bucket
        ''new packages'' ''manifests'')) ''pkg.json'' = Some ''old packages''"
    by (simp only: c5 [THEN conjunct1]) (simp add: refusing_bucket_def)
  have logged: "write_log (snd (save_dictionaries ''pkg.json'' ''mnf.json'' refusing_bucket
        ''new packages'' ''manifests'')) = [''pkg.json'', ''mnf.json'']"
    by (simp only: c5 [THEN conjunct2]) (simp add: refusing_bucket_def)
  have h1: "accepts fresh_bucket ''pkg.json''" by (simp add: fresh_bucket_def)
  have h2: "accepts fresh_bucket ''mnf.json''" by (simp add: fresh_bucket_def)
  have e1: "object_exists ?s' ''pkg.json''"
    by (simp add: save_dictionaries_def write_json_file_def object_exists_def fresh_bucket_def)
  have e2: "object_exists ?s' ''mnf.json''"
    by (simp add: save_dictionaries_def write_json_file_def object_exists_def fresh_bucket_def)
  have l1: "write_log ?s' = [''pkg.json'', ''mnf.json'']"
    by (simp add: save_dictionaries_def write_json_file_def object_exists_def fresh_bucket_def)
  note c6 = t [of fresh_bucket "''pkg.json''" "''mnf.json''" "''packages''" "''manifests''",
      THEN conjunct2, THEN conjunct2, THEN conjunct2, THEN conjunct2, THEN conjunct2,
      THEN mp, OF conjI [OF h1 h2]]
  have l2: "write_log (snd (save_dictionaries ''pkg.json'' ''mnf.json'' ?s'
      ''packages'' ''manifests'')) = [''pkg.json'', ''mnf.json'']"
    by (simp only: c6 snd_conv l1)
  from n ap am ne old c3 c4 rn rp rm kept logged e1 e2 l1 l2 show ?thesis by (intro conjI)
qed

end
